theory Spec2Isabelle
  imports Main "HOL-Library.Word"
begin

section \<open>Data model of the Raft replica (raft.go)\<close>

text \<open>
  Go's \<open>int\<close> is modelled as \<open>int\<close>: log indices are bounded by slice lengths and
  terms are only incremented and compared, so no property below depends on 64-bit
  wrap-around. \<open>time.Time\<close> and \<open>time.Duration\<close> are integers (milliseconds), and the
  value of \<open>time.Now()\<close> is a parameter \<open>now\<close> of each handler that reads the clock.

  A run-time panic of Go is a value of type \<open>error\<close>; a function that can panic returns
  \<open>error + 'a\<close>.
\<close>

datatype error = IndexOutOfRange | SliceBoundsOutOfRange | TypeAssertionFailed

type_synonym byte = "8 word"

text \<open>
  The dynamic values held in an \<open>interface{}\<close> of this program: \<open>nil\<close>, a command of the
  service (type \<open>'c\<close>; \<open>Op\<close> for the key-value server), or a snapshot \<open>[]byte\<close>.
\<close>

datatype 'c iface = nil | Dyn 'c | ByteSlice "byte list"

text \<open>The constants \<open>leader\<close>, \<open>follower\<close>, \<open>candidate\<close> of the field \<open>state\<close>.\<close>

datatype role = Leader | Follower | Candidate

abbreviation noVote :: int where
  "noVote \<equiv> - 1"

record 'c ApplyMsg =
  CommandValid :: bool
  Command :: "'c iface"
  CommandIndex :: int
  CommandTerm :: int

record 'c logEntry =
  Term :: int
  Command :: "'c iface"

text \<open>
  The blob written by \<open>getRaftState\<close>: \<open>currTerm\<close>, \<open>votedFor\<close>, \<open>log\<close>,
  \<open>lastIncludedIndex\<close>, \<open>lastIncludedTerm\<close>, in this order. The labgob encoding is
  external; the blob is the tuple of the encoded values.
\<close>

type_synonym 'c raftBlob = "int \<times> int \<times> 'c logEntry list \<times> int \<times> int"

text \<open>
  The struct \<open>Raft\<close>. \<open>peers\<close> is \<open>len(rf.peers)\<close> (the end points are the external
  transport). \<open>raftstate\<close> and \<open>snapshot\<close> are the two blobs of \<open>rf.persister\<close>
  (\<open>None\<close>: nothing saved yet). \<open>applyCh\<close> is the sequence of messages sent on the
  channel so far, oldest first. \<open>applyCondVar\<close> counts the calls of \<open>Broadcast\<close>.
  \<open>unsent\<close> is not a field of the struct: it is the local variable \<open>msgs\<close> of the
  \<open>applyCommitted\<close> goroutine while it sends, that is the part of its batch that it has
  formed under the lock and not yet sent on the channel.
\<close>

record 'c Raft =
  peers :: nat
  raftstate :: "'c raftBlob option"
  snapshot :: "byte list"
  me :: int
  state :: role
  currTerm :: int
  votedFor :: int
  log :: "'c logEntry list"
  commitIndex :: int
  lastApplied :: int
  nextIndex :: "int list"
  matchIndex :: "int list"
  elecTimeout :: int
  prevTimeElecSuppressed :: int
  votesReceived :: int
  majorityVotes :: int
  heartbeatInterval :: int
  prevTimeAppendEntries :: int
  applyCondVar :: nat
  applyCh :: "'c ApplyMsg list"
  unsent :: "'c ApplyMsg list"
  lastIncludedIndex :: int
  lastIncludedTerm :: int

record RequestVoteArgs =
  Term :: int
  CandidateID :: int
  LastLogIndex :: int
  LastLogTerm :: int

record RequestVoteReply =
  Term :: int
  VoteGranted :: bool

subsection \<open>Index translation and log accessors\<close>

definition p2a :: "'c Raft \<Rightarrow> int \<Rightarrow> int" where
  "p2a rf phantomIdx = phantomIdx - lastIncludedIndex rf - 1"

definition a2p :: "'c Raft \<Rightarrow> int \<Rightarrow> int" where
  "a2p rf actual = actual + lastIncludedIndex rf + 1"

definition getLastLogTerm :: "'c Raft \<Rightarrow> int" where
  "getLastLogTerm rf =
     (if length (log rf) > 0 then logEntry.Term (log rf ! (length (log rf) - 1))
      else lastIncludedTerm rf)"

definition getLastLogIndex :: "'c Raft \<Rightarrow> int" where
  "getLastLogIndex rf =
     (if length (log rf) > 0 then a2p rf (int (length (log rf)) - 1)
      else lastIncludedIndex rf)"

definition getLogLen :: "'c Raft \<Rightarrow> int" where
  "getLogLen rf = getLastLogIndex rf + 1"

text \<open>\<open>rf.log[i]\<close> for a Go \<open>int\<close> index: a panic outside \<open>0 \<le> i < len(rf.log)\<close>.\<close>

definition inRange :: "'a list \<Rightarrow> int \<Rightarrow> bool" where
  "inRange xs i = (0 \<le> i \<and> i < int (length xs))"

definition index2term :: "'c Raft \<Rightarrow> int \<Rightarrow> error + int" where
  "index2term rf phantomIndex =
     (if phantomIndex > lastIncludedIndex rf
      then (if inRange (log rf) (p2a rf phantomIndex)
            then Inr (logEntry.Term (log rf ! nat (p2a rf phantomIndex)))
            else Inl IndexOutOfRange)
      else Inr (lastIncludedTerm rf))"

subsection \<open>Persistence and term adoption\<close>

definition getRaftState :: "'c Raft \<Rightarrow> 'c raftBlob" where
  "getRaftState rf =
     (currTerm rf, votedFor rf, log rf, lastIncludedIndex rf, lastIncludedTerm rf)"

definition persist :: "'c Raft \<Rightarrow> 'c Raft" where
  "persist rf = rf\<lparr>raftstate := Some (getRaftState rf)\<rparr>"

definition revertToFollowerIfOutOfTerm :: "'c Raft \<Rightarrow> int \<Rightarrow> 'c Raft" where
  "revertToFollowerIfOutOfTerm rf receivedTerm =
     (if receivedTerm > currTerm rf
      then persist (rf\<lparr>currTerm := receivedTerm, votedFor := noVote, state := Follower\<rparr>)
      else rf)"

subsection \<open>Make\<close>

text \<open>
  \<open>Make\<close> with a persister that holds nothing yet (\<open>readPersist\<close> returns at once on an
  empty blob, and the snapshot sent to the service is empty). \<open>timeout\<close> is the value
  drawn by \<open>genRandomElecTimeout\<close>. The fields the struct literal leaves out have Go's
  zero values.
\<close>

definition Make :: "nat \<Rightarrow> int \<Rightarrow> int \<Rightarrow> 'c Raft" where
  "Make n i timeout =
     \<lparr>peers = n, raftstate = None, snapshot = [], me = i,
      state = Follower, currTerm = 0, votedFor = noVote,
      log = [\<lparr>logEntry.Term = 0, logEntry.Command = nil\<rparr>],
      commitIndex = 0, lastApplied = 0, nextIndex = [], matchIndex = [],
      elecTimeout = timeout, prevTimeElecSuppressed = 0,
      votesReceived = 0, majorityVotes = int n div 2 + 1,
      heartbeatInterval = 100, prevTimeAppendEntries = 0,
      applyCondVar = 0,
      applyCh = [\<lparr>CommandValid = False, ApplyMsg.Command = ByteSlice [], CommandIndex = 0,
                  CommandTerm = 0\<rparr>],
      unsent = [],
      lastIncludedIndex = - 1, lastIncludedTerm = 0\<rparr>"

subsection \<open>RequestVote\<close>

definition RequestVote ::
  "'c Raft \<Rightarrow> RequestVoteArgs \<Rightarrow> int \<Rightarrow> 'c Raft \<times> RequestVoteReply" where
  "RequestVote rf0 args now =
     (let rf = revertToFollowerIfOutOfTerm rf0 (RequestVoteArgs.Term args);
          myLastLogIndex = getLastLogIndex rf;
          myLastLogTerm = getLastLogTerm rf;
          upToDate1 = (LastLogTerm args > myLastLogTerm);
          upToDate2 = (LastLogTerm args = myLastLogTerm \<and> LastLogIndex args \<ge> myLastLogIndex);
          upToDate = (upToDate1 \<or> upToDate2)
      in if (votedFor rf = noVote \<or> votedFor rf = CandidateID args) \<and> upToDate
         then ((persist (rf\<lparr>votedFor := CandidateID args\<rparr>))\<lparr>prevTimeElecSuppressed := now\<rparr>,
               \<lparr>RequestVoteReply.Term = currTerm rf, VoteGranted = True\<rparr>)
         else (rf, \<lparr>RequestVoteReply.Term = currTerm rf, VoteGranted = False\<rparr>))"

subsection \<open>Go indexing\<close>

text \<open>
  \<open>xs[i]\<close>, \<open>xs[i] = v\<close> and \<open>xs[lo:]\<close> for a Go \<open>int\<close> index, with the run-time
  panic outside the slice.
\<close>

definition at :: "'a list \<Rightarrow> int \<Rightarrow> error + 'a" where
  "at xs i = (if inRange xs i then Inr (xs ! nat i) else Inl IndexOutOfRange)"

definition setAt :: "'a list \<Rightarrow> int \<Rightarrow> 'a \<Rightarrow> error + 'a list" where
  "setAt xs i v = (if inRange xs i then Inr (xs[nat i := v]) else Inl IndexOutOfRange)"

definition sliceFrom :: "'a list \<Rightarrow> int \<Rightarrow> error + 'a list" where
  "sliceFrom xs lo =
     (if 0 \<le> lo \<and> lo \<le> int (length xs) then Inr (drop (nat lo) xs)
      else Inl SliceBoundsOutOfRange)"

subsection \<open>AppendEntries\<close>

record 'c AppendEntriesArgs =
  Term :: int
  LeaderID :: int
  PrevLogIndex :: int
  PrevLogTerm :: int
  Entries :: "'c logEntry list"
  LeaderCommit :: int

record AppendEntriesReply =
  Term :: int
  Success :: bool
  XTerm :: int
  XIndex :: int
  XLen :: int

text \<open>
  The loop that fills \<open>reply.XIndex\<close>: from \<open>i\<close> downwards while \<open>i \<ge> 0\<close> and the
  entry's command is not \<open>nil\<close>; \<open>xindex\<close> is the value of \<open>reply.XIndex\<close> so far.
\<close>

function xIndexLoop :: "'c Raft \<Rightarrow> int \<Rightarrow> int \<Rightarrow> int \<Rightarrow> error + int" where
  "xIndexLoop rf xterm i xindex =
     (if i \<ge> 0 then
        (case at (log rf) i of
           Inl e \<Rightarrow> Inl e
         | Inr ent \<Rightarrow>
             if logEntry.Command ent \<noteq> nil then
               (if logEntry.Term ent = xterm then xIndexLoop rf xterm (i - 1) (a2p rf i)
                else Inr xindex)
             else Inr xindex)
      else Inr xindex)"
  by pat_completeness auto
termination
  by (relation "measure (\<lambda>(rf, xterm, i, xindex). nat (i + 1))") auto

text \<open>The branch taken when the log does not match at \<open>PrevLogIndex\<close>.\<close>

definition fastRollback ::
  "'c Raft \<Rightarrow> 'c AppendEntriesArgs \<Rightarrow> AppendEntriesReply \<Rightarrow> error + AppendEntriesReply" where
  "fastRollback rf args reply =
     (if getLogLen rf \<le> PrevLogIndex args
      then Inr (reply\<lparr>XTerm := - 1, XIndex := - 1, XLen := getLogLen rf\<rparr>)
      else
        (case at (log rf) (p2a rf (PrevLogIndex args)) of
           Inl e \<Rightarrow> Inl e
         | Inr ent \<Rightarrow>
             (case xIndexLoop rf (logEntry.Term ent) (p2a rf (PrevLogIndex args))
                     (XIndex reply) of
                Inl e \<Rightarrow> Inl e
              | Inr xi \<Rightarrow>
                  Inr (reply\<lparr>XTerm := logEntry.Term ent, XIndex := xi, XLen := getLogLen rf\<rparr>))))"

text \<open>
  The first loop over \<open>args.Entries\<close>: it stops at the first index that is not in the
  local log (\<open>currIndexActual < 0\<close> or \<open>currIndex \<ge> getLogLen\<close>) or at the first
  conflict, where it truncates and persists. It returns the value of \<open>i\<close> at the exit.
\<close>

function conflictLoop ::
  "'c Raft \<Rightarrow> 'c AppendEntriesArgs \<Rightarrow> nat \<Rightarrow> error + ('c Raft \<times> nat)" where
  "conflictLoop rf args i =
     (if i < length (Entries args) then
        (let currIndex = PrevLogIndex args + 1 + int i;
             currIndexActual = p2a rf currIndex
         in if currIndexActual < 0 \<or> currIndex \<ge> getLogLen rf then Inr (rf, i)
            else
              (case at (log rf) currIndexActual of
                 Inl e \<Rightarrow> Inl e
               | Inr ent \<Rightarrow>
                   if logEntry.Term ent \<noteq> logEntry.Term (Entries args ! i)
                   then Inr (persist (rf\<lparr>log := take (nat currIndexActual) (log rf)\<rparr>), i)
                   else conflictLoop rf args (i + 1)))
      else Inr (rf, i))"
  by pat_completeness auto
termination
  by (relation "measure (\<lambda>(rf, args, i). length (Entries args) - i)") auto

text \<open>The second loop appends \<open>args.Entries[i:]\<close>.\<close>

definition appendLoop :: "'c Raft \<Rightarrow> 'c AppendEntriesArgs \<Rightarrow> nat \<Rightarrow> 'c Raft" where
  "appendLoop rf args i = rf\<lparr>log := log rf @ drop i (Entries args)\<rparr>"

definition AppendEntries ::
  "'c Raft \<Rightarrow> 'c AppendEntriesArgs \<Rightarrow> int \<Rightarrow> error + ('c Raft \<times> AppendEntriesReply)" where
  "AppendEntries rf0 args now =
     (let rf1 = revertToFollowerIfOutOfTerm rf0 (AppendEntriesArgs.Term args);
          reply = \<lparr>AppendEntriesReply.Term = currTerm rf1, Success = False,
                   XTerm = 0, XIndex = 0, XLen = 0\<rparr>
      in if AppendEntriesArgs.Term args < currTerm rf1 then Inr (rf1, reply)
         else
           (let rf = rf1\<lparr>prevTimeElecSuppressed := now\<rparr>;
                prevLogIndexActual = p2a rf (PrevLogIndex args)
            in case (if getLogLen rf \<le> PrevLogIndex args then Inr True
                     else if prevLogIndexActual \<ge> 0 then
                       (case at (log rf) prevLogIndexActual of
                          Inl e \<Rightarrow> Inl e
                        | Inr ent \<Rightarrow> Inr (logEntry.Term ent \<noteq> PrevLogTerm args))
                     else Inr False) of
                 Inl e \<Rightarrow> Inl e
               | Inr True \<Rightarrow>
                   (case fastRollback rf args reply of
                      Inl e \<Rightarrow> Inl e
                    | Inr reply' \<Rightarrow> Inr (rf, reply'))
               | Inr False \<Rightarrow>
                   (case conflictLoop rf args 0 of
                      Inl e \<Rightarrow> Inl e
                    | Inr (rf2, i) \<Rightarrow>
                        (let rf3 = persist (appendLoop rf2 args i);
                             rf4 = (if LeaderCommit args > commitIndex rf3
                                    then rf3\<lparr>commitIndex :=
                                               min (LeaderCommit args) (getLastLogIndex rf3),
                                             applyCondVar := applyCondVar rf3 + 1\<rparr>
                                    else rf3)
                         in Inr (rf4, reply\<lparr>Success := True\<rparr>)))))"

subsection \<open>tryCommit\<close>

text \<open>The inner loop over the peers; \<open>cnt\<close> is \<open>replicatedCount\<close>.\<close>

function replicatedCountLoop :: "'c Raft \<Rightarrow> int \<Rightarrow> nat \<Rightarrow> int \<Rightarrow> error + int" where
  "replicatedCountLoop rf N i cnt =
     (if i < peers rf then
        (if int i = me rf then replicatedCountLoop rf N (i + 1) cnt
         else
           (case at (matchIndex rf) (int i) of
              Inl e \<Rightarrow> Inl e
            | Inr m \<Rightarrow>
                if m \<ge> N then replicatedCountLoop rf N (i + 1) (cnt + 1)
                else replicatedCountLoop rf N (i + 1) cnt))
      else Inr cnt)"
  by pat_completeness auto
termination
  by (relation "measure (\<lambda>(rf, N, i, cnt). peers rf - i)") auto

function tryCommitLoop :: "'c Raft \<Rightarrow> int \<Rightarrow> error + 'c Raft" where
  "tryCommitLoop rf N =
     (if N > lastIncludedIndex rf then
        (case replicatedCountLoop rf N 0 1 of
           Inl e \<Rightarrow> Inl e
         | Inr replicatedCount \<Rightarrow>
             if replicatedCount \<ge> int (peers rf) div 2 + 1 then
               (case at (log rf) (p2a rf N) of
                  Inl e \<Rightarrow> Inl e
                | Inr ent \<Rightarrow>
                    if logEntry.Term ent = currTerm rf
                    then Inr (rf\<lparr>commitIndex := N, applyCondVar := applyCondVar rf + 1\<rparr>)
                    else tryCommitLoop rf (N - 1))
             else tryCommitLoop rf (N - 1))
      else Inr rf)"
  by pat_completeness auto
termination
  by (relation "measure (\<lambda>(rf, N). nat (N - lastIncludedIndex rf))") auto

definition tryCommit :: "'c Raft \<Rightarrow> error + 'c Raft" where
  "tryCommit rf = tryCommitLoop rf (getLastLogIndex rf)"

subsection \<open>sendAppendEntriesToPeers\<close>

record InstallSnapshotArgs =
  Term :: int
  LeaderID :: int
  LastIncludedIndex :: int
  LastIncludedTerm :: int
  Data :: "byte list"

record InstallSnapshotReply =
  Term :: int

text \<open>
  An RPC dispatched by a \<open>go\<close> statement: the peer it goes to and the arguments, which
  are evaluated under the lock when the goroutine is created. The values the reply
  closure captures (\<open>term\<close>, \<open>prevLogIndex\<close>, \<open>entries\<close>, \<open>lastIncludedIndex\<close>) are the
  fields of these arguments.
\<close>

datatype 'c rpc =
  AppendEntriesCall int "'c AppendEntriesArgs"
  | InstallSnapshotCall int InstallSnapshotArgs
  | RequestVoteCall int RequestVoteArgs

function sendLoop :: "'c Raft \<Rightarrow> nat \<Rightarrow> 'c rpc list \<Rightarrow> error + 'c rpc list" where
  "sendLoop rf i calls =
     (if i < peers rf then
        (if int i = me rf then sendLoop rf (i + 1) calls
         else
           (case at (matchIndex rf) (int i) of
              Inl e \<Rightarrow> Inl e
            | Inr prevLogIndex \<Rightarrow>
                if prevLogIndex \<ge> lastIncludedIndex rf then
                  (case index2term rf prevLogIndex of
                     Inl e \<Rightarrow> Inl e
                   | Inr prevLogTerm \<Rightarrow>
                       (case sliceFrom (log rf) (p2a rf prevLogIndex + 1) of
                          Inl e \<Rightarrow> Inl e
                        | Inr entries \<Rightarrow>
                            sendLoop rf (i + 1)
                              (calls @ [AppendEntriesCall (int i)
                                 \<lparr>AppendEntriesArgs.Term = currTerm rf, LeaderID = me rf,
                                  PrevLogIndex = prevLogIndex, PrevLogTerm = prevLogTerm,
                                  Entries = entries, LeaderCommit = commitIndex rf\<rparr>])))
                else
                  sendLoop rf (i + 1)
                    (calls @ [InstallSnapshotCall (int i)
                       \<lparr>InstallSnapshotArgs.Term = currTerm rf, LeaderID = me rf,
                        LastIncludedIndex = lastIncludedIndex rf,
                        LastIncludedTerm = lastIncludedTerm rf,
                        Data = snapshot rf\<rparr>])))
      else Inr calls)"
  by pat_completeness auto
termination
  by (relation "measure (\<lambda>(rf, i, calls). peers rf - i)") auto

definition sendAppendEntriesToPeers ::
  "'c Raft \<Rightarrow> int \<Rightarrow> error + ('c Raft \<times> 'c rpc list)" where
  "sendAppendEntriesToPeers rf now =
     (case sendLoop rf 0 [] of
        Inl e \<Rightarrow> Inl e
      | Inr calls \<Rightarrow> Inr (rf\<lparr>prevTimeAppendEntries := now\<rparr>, calls))"

subsection \<open>The reply closures of sendAppendEntriesToPeers\<close>

text \<open>
  The loop that looks for the leader's last entry of term \<open>reply.XTerm\<close>; the result is
  \<open>foundIndex\<close>.
\<close>

function foundIndexLoop :: "'c Raft \<Rightarrow> int \<Rightarrow> int \<Rightarrow> error + int" where
  "foundIndexLoop rf xterm i =
     (if i \<ge> 0 then
        (case at (log rf) i of
           Inl e \<Rightarrow> Inl e
         | Inr ent \<Rightarrow>
             if logEntry.Command ent \<noteq> nil then
               (if logEntry.Term ent = xterm then Inr (a2p rf i)
                else if logEntry.Term ent < xterm then Inr (- 1)
                else foundIndexLoop rf xterm (i - 1))
             else Inr (- 1))
      else Inr (- 1))"
  by pat_completeness auto
termination
  by (relation "measure (\<lambda>(rf, xterm, i). nat (i + 1))") auto

text \<open>
  The closure run when \<open>Call("Raft.AppendEntries")\<close> returns \<open>ok\<close>, from \<open>rf.mu.Lock()\<close>
  on. \<open>server\<close> and \<open>args\<close> are those of the call.
\<close>

definition appendEntriesReply ::
  "'c Raft \<Rightarrow> int \<Rightarrow> 'c AppendEntriesArgs \<Rightarrow> AppendEntriesReply \<Rightarrow> error + 'c Raft" where
  "appendEntriesReply rf0 server args reply =
     (let rf = revertToFollowerIfOutOfTerm rf0 (AppendEntriesReply.Term reply);
          term = AppendEntriesArgs.Term args;
          prevLogIndex = PrevLogIndex args
      in if term \<noteq> currTerm rf \<or> state rf \<noteq> Leader then Inr rf
         else if Success reply then
           (case setAt (nextIndex rf) server
                   (prevLogIndex + int (length (Entries args)) + 1) of
              Inl e \<Rightarrow> Inl e
            | Inr ni \<Rightarrow>
                (case setAt (matchIndex rf) server
                        (prevLogIndex + int (length (Entries args))) of
                   Inl e \<Rightarrow> Inl e
                 | Inr mi \<Rightarrow> tryCommit (rf\<lparr>nextIndex := ni, matchIndex := mi\<rparr>)))
         else
           (case (if XTerm reply = - 1 \<and> XIndex reply = - 1 then Inr (XLen reply)
                  else
                    (case foundIndexLoop rf (XTerm reply) (p2a rf (getLastLogIndex rf)) of
                       Inl e \<Rightarrow> Inl e
                     | Inr foundIndex \<Rightarrow>
                         if foundIndex = - 1 then Inr (XIndex reply) else Inr foundIndex)) of
              Inl e \<Rightarrow> Inl e
            | Inr n \<Rightarrow>
                (case setAt (nextIndex rf) server n of
                   Inl e \<Rightarrow> Inl e
                 | Inr ni \<Rightarrow>
                     (case setAt (matchIndex rf) server (n - 1) of
                        Inl e \<Rightarrow> Inl e
                      | Inr mi \<Rightarrow> Inr (rf\<lparr>nextIndex := ni, matchIndex := mi\<rparr>)))))"

text \<open>The closure run when \<open>Call("Raft.InstallSnapshot")\<close> returns \<open>ok\<close>.\<close>

definition installSnapshotReply ::
  "'c Raft \<Rightarrow> int \<Rightarrow> InstallSnapshotArgs \<Rightarrow> InstallSnapshotReply \<Rightarrow> error + 'c Raft" where
  "installSnapshotReply rf0 server args reply =
     (let rf = revertToFollowerIfOutOfTerm rf0 (InstallSnapshotReply.Term reply);
          lastIncludedIndex = LastIncludedIndex args
      in if state rf \<noteq> Leader then Inr rf
         else
           (case setAt (nextIndex rf) server (lastIncludedIndex + 1) of
              Inl e \<Rightarrow> Inl e
            | Inr ni \<Rightarrow>
                (case setAt (matchIndex rf) server lastIncludedIndex of
                   Inl e \<Rightarrow> Inl e
                 | Inr mi \<Rightarrow> tryCommit (rf\<lparr>nextIndex := ni, matchIndex := mi\<rparr>))))"

subsection \<open>periodicElection\<close>

text \<open>
  One pass of the loop body under the lock. \<open>timeout\<close> is the value drawn by
  \<open>genRandomElecTimeout\<close>. The result holds the RequestVote calls dispatched.
\<close>

definition periodicElection :: "'c Raft \<Rightarrow> int \<Rightarrow> int \<Rightarrow> 'c Raft \<times> 'c rpc list" where
  "periodicElection rf0 now timeout =
     (if state rf0 \<noteq> Leader \<and> now - prevTimeElecSuppressed rf0 > elecTimeout rf0 then
        (let rf = (persist (rf0\<lparr>state := Candidate, currTerm := currTerm rf0 + 1,
                                votedFor := me rf0\<rparr>))
                    \<lparr>votesReceived := 1, prevTimeElecSuppressed := now,
                     elecTimeout := timeout\<rparr>
         in (rf, map (\<lambda>i. RequestVoteCall (int i)
                       \<lparr>RequestVoteArgs.Term = currTerm rf, CandidateID = me rf,
                        LastLogIndex = getLastLogIndex rf,
                        LastLogTerm = getLastLogTerm rf\<rparr>)
                    (filter (\<lambda>i. int i \<noteq> me rf) [0..<peers rf])))
      else (rf0, []))"

text \<open>
  The closure run when \<open>Call("Raft.RequestVote")\<close> returns \<open>ok\<close>. \<open>args\<close> are those of
  the call (\<open>term\<close> is \<open>args.Term\<close>).
\<close>

definition requestVoteReply ::
  "'c Raft \<Rightarrow> RequestVoteArgs \<Rightarrow> RequestVoteReply \<Rightarrow> int \<Rightarrow> error + ('c Raft \<times> 'c rpc list)" where
  "requestVoteReply rf0 args reply now =
     (let rf = revertToFollowerIfOutOfTerm rf0 (RequestVoteReply.Term reply);
          term = RequestVoteArgs.Term args
      in if state rf \<noteq> Candidate then Inr (rf, [])
         else if state rf = Candidate \<and> VoteGranted reply then
           (let rf1 = rf\<lparr>votesReceived := votesReceived rf + 1\<rparr>
            in if votesReceived rf1 \<ge> majorityVotes rf1 \<and> term = currTerm rf1 then
                 sendAppendEntriesToPeers
                   (rf1\<lparr>state := Leader,
                        nextIndex := replicate (peers rf1) (getLogLen rf1),
                        matchIndex := replicate (peers rf1) 0\<rparr>) now
               else Inr (rf1, []))
         else Inr (rf, []))"

subsection \<open>InstallSnapshot and TakeSnapshot\<close>

definition InstallSnapshot ::
  "'c Raft \<Rightarrow> InstallSnapshotArgs \<Rightarrow> int \<Rightarrow> 'c Raft \<times> InstallSnapshotReply" where
  "InstallSnapshot rf0 args now =
     (let rf1 = revertToFollowerIfOutOfTerm rf0 (InstallSnapshotArgs.Term args);
          reply = \<lparr>InstallSnapshotReply.Term = currTerm rf1\<rparr>
      in if InstallSnapshotArgs.Term args < currTerm rf1 then (rf1, reply)
         else
           (let rf2 = rf1\<lparr>prevTimeElecSuppressed := now\<rparr>;
                logIndexStart = a2p rf2 0
            in if LastIncludedIndex args < logIndexStart then (rf2, reply)
               else
                 (let lastIncludedIndexActual = p2a rf2 (LastIncludedIndex args);
                      rf3 = rf2\<lparr>log := drop (nat (min (lastIncludedIndexActual + 1)
                                                        (int (length (log rf2)))))
                                          (log rf2),
                                 lastIncludedIndex := LastIncludedIndex args,
                                 lastIncludedTerm := LastIncludedTerm args\<rparr>;
                      rf4 = rf3\<lparr>raftstate := Some (getRaftState rf3),
                                 snapshot := Data args\<rparr>;
                      rf5 = rf4\<lparr>lastApplied := max (lastApplied rf4) (lastIncludedIndex rf4)\<rparr>;
                      rf6 = rf5\<lparr>commitIndex := max (commitIndex rf5) (lastIncludedIndex rf5)\<rparr>;
                      snapshotMsg = \<lparr>CommandValid = False,
                                     ApplyMsg.Command = ByteSlice (Data args),
                                     CommandIndex = 0, CommandTerm = 0\<rparr>
                  in (rf6\<lparr>applyCh := applyCh rf6 @ [snapshotMsg]\<rparr>, reply))))"

definition TakeSnapshot :: "'c Raft \<Rightarrow> int \<Rightarrow> int \<Rightarrow> byte list \<Rightarrow> error + 'c Raft" where
  "TakeSnapshot rf lastIncludedIndex' lastIncludedTerm' snapshot' =
     (if lastIncludedIndex' < lastIncludedIndex rf then Inr rf
      else
        (let lastIncludedIndexActual = p2a rf lastIncludedIndex'
         in case sliceFrom (log rf) (lastIncludedIndexActual + 1) of
              Inl e \<Rightarrow> Inl e
            | Inr log' \<Rightarrow>
                (let rf1 = rf\<lparr>log := log', lastIncludedIndex := lastIncludedIndex',
                              lastIncludedTerm := lastIncludedTerm'\<rparr>
                 in Inr (rf1\<lparr>raftstate := Some (getRaftState rf1),
                             snapshot := snapshot'\<rparr>))))"

subsection \<open>applyCommitted\<close>

text \<open>The inner loop that collects \<open>msgs\<close> under the lock.\<close>

function applyLoop ::
  "'c Raft \<Rightarrow> 'c ApplyMsg list \<Rightarrow> error + ('c Raft \<times> 'c ApplyMsg list)" where
  "applyLoop rf msgs =
     (if lastApplied rf < commitIndex rf then
        (let rf1 = rf\<lparr>lastApplied := lastApplied rf + 1\<rparr>
         in case at (log rf1) (p2a rf1 (lastApplied rf1)) of
              Inl e \<Rightarrow> Inl e
            | Inr entry \<Rightarrow>
                applyLoop rf1
                  (msgs @ [\<lparr>CommandValid = True,
                            ApplyMsg.Command = logEntry.Command entry,
                            CommandIndex = lastApplied rf1,
                            CommandTerm = logEntry.Term entry\<rparr>]))
      else Inr (rf, msgs))"
  by pat_completeness auto
termination
  by (relation "measure (\<lambda>(rf, msgs). nat (commitIndex rf - lastApplied rf))") auto

text \<open>
  One pass of the outer loop up to \<open>rf.mu.Unlock()\<close>: while
  \<open>lastApplied \<ge> commitIndex\<close> the goroutine waits and nothing changes; otherwise the
  batch \<open>msgs\<close> is collected under the lock. The goroutine then holds the batch and
  sends it with the lock released.
\<close>

definition applyCommitted :: "'c Raft \<Rightarrow> error + 'c Raft" where
  "applyCommitted rf =
     (if lastApplied rf \<ge> commitIndex rf then Inr rf
      else
        (case applyLoop rf [] of
           Inl e \<Rightarrow> Inl e
         | Inr (rf1, msgs) \<Rightarrow> Inr (rf1\<lparr>unsent := msgs\<rparr>)))"

text \<open>
  One turn of the loop \<open>for _, msg := range msgs { rf.applyCh <- msg }\<close>, which runs
  without the lock: the next message of the batch goes on the channel.
\<close>

definition sendNext :: "'c Raft \<Rightarrow> 'c Raft" where
  "sendNext rf =
     (case unsent rf of
        [] \<Rightarrow> rf
      | msg # msgs \<Rightarrow> rf\<lparr>applyCh := applyCh rf @ [msg], unsent := msgs\<rparr>)"

subsection \<open>Start\<close>

text \<open>The result is \<open>(index, term, isLeader)\<close>, the new state and the calls dispatched.\<close>

definition Start ::
  "'c Raft \<Rightarrow> 'c iface \<Rightarrow> int \<Rightarrow> error + ((int \<times> int \<times> bool) \<times> 'c Raft \<times> 'c rpc list)" where
  "Start rf command now =
     (let index = getLogLen rf;
          term = currTerm rf;
          isLeader = (state rf = Leader)
      in if isLeader then
           (let entry = \<lparr>logEntry.Term = currTerm rf, logEntry.Command = command\<rparr>;
                rf1 = persist (rf\<lparr>log := log rf @ [entry]\<rparr>)
            in case sendAppendEntriesToPeers rf1 now of
                 Inl e \<Rightarrow> Inl e
               | Inr (rf2, calls) \<Rightarrow> Inr ((index, term, isLeader), rf2, calls))
         else Inr ((index, term, isLeader), rf, []))"

subsection \<open>periodicAppendEntries\<close>

text \<open>One pass of the loop body under the lock.\<close>

definition periodicAppendEntries ::
  "'c Raft \<Rightarrow> int \<Rightarrow> error + ('c Raft \<times> 'c rpc list)" where
  "periodicAppendEntries rf now =
     (if state rf \<noteq> Leader then Inr (rf, [])
      else if now - prevTimeAppendEntries rf > heartbeatInterval rf
      then sendAppendEntriesToPeers rf now
      else Inr (rf, []))"

subsection \<open>A replica as a sequence of critical sections\<close>

text \<open>
  Every handler, reply closure and loop body above runs under \<open>rf.mu\<close>, so the life of
  one replica is a sequence of these steps in the order in which they take the lock,
  interleaved with the sends of the applier, which run without the lock: between two
  sends of a batch any other step can take place, and \<open>InstallSnapshot\<close>, which sends
  its snapshot message while it holds the lock, can put that message on the channel
  before messages of a batch that was formed earlier. The applier is one goroutine: it
  forms its next batch only when it has sent the last one. An event names the step and
  carries its inputs. A panic ends the process: the run stops, and the channel holds
  what was sent before.
\<close>

datatype 'c event =
  RequestVoteEv RequestVoteArgs int
  | AppendEntriesEv "'c AppendEntriesArgs" int
  | InstallSnapshotEv InstallSnapshotArgs int
  | TakeSnapshotEv int int "byte list"
  | StartEv "'c iface" int
  | ElectionEv int int
  | HeartbeatEv int
  | RequestVoteReplyEv RequestVoteArgs RequestVoteReply int
  | AppendEntriesReplyEv int "'c AppendEntriesArgs" AppendEntriesReply
  | InstallSnapshotReplyEv int InstallSnapshotArgs InstallSnapshotReply
  | ApplyEv
  | SendEv

fun step :: "'c event \<Rightarrow> 'c Raft \<Rightarrow> error + 'c Raft" where
  "step (RequestVoteEv args now) rf = Inr (fst (RequestVote rf args now))"
| "step (AppendEntriesEv args now) rf =
     (case AppendEntries rf args now of Inl e \<Rightarrow> Inl e | Inr (rf', reply) \<Rightarrow> Inr rf')"
| "step (InstallSnapshotEv args now) rf = Inr (fst (InstallSnapshot rf args now))"
| "step (TakeSnapshotEv i t d) rf = TakeSnapshot rf i t d"
| "step (StartEv command now) rf =
     (case Start rf command now of Inl e \<Rightarrow> Inl e | Inr (res, rf', calls) \<Rightarrow> Inr rf')"
| "step (ElectionEv now timeout) rf = Inr (fst (periodicElection rf now timeout))"
| "step (HeartbeatEv now) rf =
     (case periodicAppendEntries rf now of Inl e \<Rightarrow> Inl e | Inr (rf', calls) \<Rightarrow> Inr rf')"
| "step (RequestVoteReplyEv args reply now) rf =
     (case requestVoteReply rf args reply now of
        Inl e \<Rightarrow> Inl e
      | Inr (rf', calls) \<Rightarrow> Inr rf')"
| "step (AppendEntriesReplyEv server args reply) rf = appendEntriesReply rf server args reply"
| "step (InstallSnapshotReplyEv server args reply) rf =
     installSnapshotReply rf server args reply"
| "step ApplyEv rf = (if unsent rf = [] then applyCommitted rf else Inr rf)"
| "step SendEv rf = Inr (sendNext rf)"

fun run :: "'c event list \<Rightarrow> 'c Raft \<Rightarrow> 'c Raft" where
  "run [] rf = rf"
| "run (e # es) rf = (case step e rf of Inl x \<Rightarrow> rf | Inr rf' \<Rightarrow> run es rf')"

subsection \<open>Properties of logs and of the apply stream\<close>

text \<open>The entry a replica holds at a logical index, if it holds one.\<close>

definition entryAt :: "'c Raft \<Rightarrow> int \<Rightarrow> 'c logEntry option" where
  "entryAt rf i =
     (if inRange (log rf) (p2a rf i) then Some (log rf ! nat (p2a rf i)) else None)"

text \<open>
  Log Matching between two replicas: at every logical index \<open>i\<close> where both hold an
  entry and the terms agree, the entries are equal and so are the entries at all
  earlier indices that both hold. Both replicas hold exactly the indices from their
  first stored index (\<open>a2p 0\<close>) to \<open>getLastLogIndex\<close>.
\<close>

definition logMatching :: "'c Raft \<Rightarrow> 'c Raft \<Rightarrow> bool" where
  "logMatching a b =
     (let lo = max (a2p a 0) (a2p b 0);
          hi = min (getLastLogIndex a) (getLastLogIndex b)
      in list_all
           (\<lambda>i. (case (entryAt a i, entryAt b i) of
                    (Some ea, Some eb) \<Rightarrow>
                      logEntry.Term ea = logEntry.Term eb \<longrightarrow>
                        list_all (\<lambda>j. entryAt a j = entryAt b j) [lo..i]
                  | _ \<Rightarrow> True))
           [lo..hi])"



text \<open>
  The message that \<open>applyCommitted\<close> builds for the logical index \<open>i\<close> of an entry the
  replica holds.
\<close>

definition committedMsg :: "'c Raft \<Rightarrow> int \<Rightarrow> 'c ApplyMsg" where
  "committedMsg rf i =
     \<lparr>CommandValid = True,
      ApplyMsg.Command = logEntry.Command (log rf ! nat (p2a rf i)),
      CommandIndex = i,
      CommandTerm = logEntry.Term (log rf ! nat (p2a rf i))\<rparr>"





section \<open>The key-value server (kvraft/server.go)\<close>

abbreviation GET :: string where "GET \<equiv> ''Get''"
abbreviation PUT :: string where "PUT \<equiv> ''Put''"
abbreviation APPEND :: string where "APPEND \<equiv> ''Append''"

record Op =
  Type :: string
  Key :: string
  Value :: string
  Cid :: int
  Seq :: int

text \<open>
  The struct \<open>KVServer\<close>. The three Go maps are partial functions; \<open>rf\<close> is the state of
  the Raft replica at the moment the server calls into it; \<open>applyCond\<close> counts the calls
  of \<open>Broadcast\<close>.
\<close>

record KVServer =
  me :: int
  rf :: "Op Raft"
  maxraftstate :: int
  store :: "string \<rightharpoonup> string"
  clientSeqMap :: "int \<rightharpoonup> int"
  applyResMap :: "int \<rightharpoonup> (int \<rightharpoonup> bool)"
  applyCond :: nat
  lastAppliedIndex :: int
  lastAppliedTerm :: int

text \<open>Reading a Go map at a missing key gives the zero value.\<close>

definition seqOf :: "(int \<rightharpoonup> int) \<Rightarrow> int \<Rightarrow> int" where
  "seqOf m cid = (case m cid of None \<Rightarrow> 0 | Some s \<Rightarrow> s)"

definition strOf :: "(string \<rightharpoonup> string) \<Rightarrow> string \<Rightarrow> string" where
  "strOf m k = (case m k of None \<Rightarrow> [] | Some v \<Rightarrow> v)"

text \<open>
  The test \<open>_, applied := kv.applyResMap[cid][seq]\<close> on which the waiter of \<open>Get\<close> and
  \<open>PutAppend\<close> loops.
\<close>

definition applied :: "KVServer \<Rightarrow> int \<Rightarrow> int \<Rightarrow> bool" where
  "applied kv cid seq =
     (case applyResMap kv cid of None \<Rightarrow> False | Some m \<Rightarrow> m seq \<noteq> None)"

text \<open>
  The test \<open>args.Seq < kv.clientSeqMap[args.Cid]\<close> at the head of \<open>Get\<close> and
  \<open>PutAppend\<close>. A request that passes it is proposed through \<open>Start\<close>, and on a
  leader its handler then waits until \<open>applied\<close> holds for its \<open>(Cid, Seq)\<close>, or for
  its timeout.
\<close>

definition staleRequest :: "KVServer \<Rightarrow> int \<Rightarrow> int \<Rightarrow> bool" where
  "staleRequest kv cid seq = (seq < seqOf (clientSeqMap kv) cid)"

definition reduceState :: "KVServer \<Rightarrow> int \<Rightarrow> int \<Rightarrow> KVServer" where
  "reduceState kv cid maxSeq =
     (case applyResMap kv cid of
        None \<Rightarrow> kv
      | Some m \<Rightarrow>
          kv\<lparr>applyResMap :=
               (applyResMap kv)(cid \<mapsto> (\<lambda>seq. if seq < maxSeq then None else m seq))\<rparr>)"

text \<open>
  \<open>getSnapshot\<close> and \<open>readSnapshot\<close> go through the labgob encoding, which is external:
  \<open>enc\<close> and \<open>dec\<close> are the encoder and the decoder of the pair \<open>(store, clientSeqMap)\<close>
  (\<open>dec\<close> gives \<open>None\<close> when decoding fails).
\<close>

definition getSnapshot ::
  "((string \<rightharpoonup> string) \<times> (int \<rightharpoonup> int) \<Rightarrow> byte list) \<Rightarrow> KVServer \<Rightarrow> byte list" where
  "getSnapshot enc kv = enc (store kv, clientSeqMap kv)"

definition readSnapshot ::
  "(byte list \<Rightarrow> ((string \<rightharpoonup> string) \<times> (int \<rightharpoonup> int)) option) \<Rightarrow> KVServer \<Rightarrow> byte list
     \<Rightarrow> KVServer" where
  "readSnapshot dec kv data =
     (if length data < 1 then kv
      else
        (case dec data of
           None \<Rightarrow> kv
         | Some (store', clientSeqMap') \<Rightarrow> kv\<lparr>store := store', clientSeqMap := clientSeqMap'\<rparr>))"

text \<open>
  \<open>snapshotCheck\<close> compares \<open>persister.RaftStateSize()\<close> with \<open>0.8 * maxraftstate\<close> in
  \<open>float32\<close>; the outcome of that comparison is the parameter \<open>exceeds\<close>.
\<close>

definition snapshotCheck ::
  "((string \<rightharpoonup> string) \<times> (int \<rightharpoonup> int) \<Rightarrow> byte list) \<Rightarrow> bool \<Rightarrow> KVServer
     \<Rightarrow> error + KVServer" where
  "snapshotCheck enc exceeds kv =
     (if maxraftstate kv > - 1 \<and> exceeds then
        (case TakeSnapshot (rf kv) (lastAppliedIndex kv) (lastAppliedTerm kv)
                (getSnapshot enc kv) of
           Inl e \<Rightarrow> Inl e
         | Inr rf' \<Rightarrow> Inr (kv\<lparr>rf := rf'\<rparr>))
      else Inr kv)"

text \<open>The body of the loop of the server's \<open>applyCommitted\<close> for one message.\<close>

definition kvApplyCommitted ::
  "((string \<rightharpoonup> string) \<times> (int \<rightharpoonup> int) \<Rightarrow> byte list)
     \<Rightarrow> (byte list \<Rightarrow> ((string \<rightharpoonup> string) \<times> (int \<rightharpoonup> int)) option)
     \<Rightarrow> bool \<Rightarrow> KVServer \<Rightarrow> Op ApplyMsg \<Rightarrow> error + KVServer" where
  "kvApplyCommitted enc dec exceeds kv msg =
     (if CommandValid msg then
        (case ApplyMsg.Command msg of
           Dyn op \<Rightarrow>
             (let kv' =
                (if Seq op > seqOf (clientSeqMap kv) (Cid op) then
                   (let kv1 =
                          (if Type op = GET then kv
                           else if Type op = PUT
                           then kv\<lparr>store := (store kv)(Key op \<mapsto> Value op)\<rparr>
                           else if Type op = APPEND
                           then kv\<lparr>store := (store kv)
                                     (Key op \<mapsto> strOf (store kv) (Key op) @ Value op)\<rparr>
                           else kv);
                        kv2 = kv1\<lparr>lastAppliedIndex := CommandIndex msg,
                                   lastAppliedTerm := CommandTerm msg\<rparr>;
                        kv3 = kv2\<lparr>clientSeqMap := (clientSeqMap kv2)(Cid op \<mapsto> Seq op)\<rparr>;
                        kv4 = (case applyResMap kv3 (Cid op) of
                                 None \<Rightarrow> kv3\<lparr>applyResMap :=
                                                (applyResMap kv3)(Cid op \<mapsto> Map.empty)\<rparr>
                               | Some m \<Rightarrow> kv3);
                        kv5 = kv4\<lparr>applyResMap :=
                                    (applyResMap kv4)
                                      (Cid op \<mapsto> (case applyResMap kv4 (Cid op) of
                                                    None \<Rightarrow> Map.empty
                                                  | Some m \<Rightarrow> m)(Seq op \<mapsto> True))\<rparr>;
                        kv6 = reduceState kv5 (Cid op) (Seq op)
                    in kv6\<lparr>applyCond := applyCond kv6 + 1\<rparr>)
                 else kv)
              in snapshotCheck enc exceeds kv')
         | _ \<Rightarrow> Inl TypeAssertionFailed)
      else
        (case ApplyMsg.Command msg of
           ByteSlice snapshot' \<Rightarrow> Inr (readSnapshot dec kv snapshot')
         | _ \<Rightarrow> Inl TypeAssertionFailed))"

section \<open>Concrete runs\<close>

text \<open>
  Runs of replicas of a three- or five-peer cluster from their \<open>Make\<close> states, with
  natural numbers as commands. Each RPC argument below is one that a peer running this
  code dispatches; each reply is one that a peer running this code returns.
\<close>

definition ent :: "int \<Rightarrow> nat \<Rightarrow> nat logEntry" where
  "ent t c = \<lparr>logEntry.Term = t, logEntry.Command = Dyn c\<rparr>"

definition granted :: "int \<Rightarrow> RequestVoteReply" where
  "granted t = \<lparr>RequestVoteReply.Term = t, VoteGranted = True\<rparr>"

definition success :: "int \<Rightarrow> AppendEntriesReply" where
  "success t = \<lparr>AppendEntriesReply.Term = t, Success = True, XTerm = 0, XIndex = 0, XLen = 0\<rparr>"

definition voteArgs :: "int \<Rightarrow> int \<Rightarrow> int \<Rightarrow> int \<Rightarrow> RequestVoteArgs" where
  "voteArgs t c i lt =
     \<lparr>RequestVoteArgs.Term = t, CandidateID = c, LastLogIndex = i, LastLogTerm = lt\<rparr>"

definition appendArgs ::
  "int \<Rightarrow> int \<Rightarrow> int \<Rightarrow> int \<Rightarrow> nat logEntry list \<Rightarrow> int \<Rightarrow> nat AppendEntriesArgs" where
  "appendArgs t l pi pt es lc =
     \<lparr>AppendEntriesArgs.Term = t, LeaderID = l, PrevLogIndex = pi, PrevLogTerm = pt,
      Entries = es, LeaderCommit = lc\<rparr>"

definition snapArgs :: "int \<Rightarrow> int \<Rightarrow> int \<Rightarrow> int \<Rightarrow> byte list \<Rightarrow> InstallSnapshotArgs" where
  "snapArgs t l i it d =
     \<lparr>InstallSnapshotArgs.Term = t, LeaderID = l, LastIncludedIndex = i,
      LastIncludedTerm = it, Data = d\<rparr>"

text \<open>
  A follower that was told of term 5 by a heartbeat: \<open>currTerm = 5\<close> and no vote cast.
\<close>

definition voterAtTerm5 :: "nat Raft" where
  "voterAtTerm5 = run [AppendEntriesEv (appendArgs 5 2 0 0 [] 0) 100] (Make 3 0 500)"

text \<open>
  Replica 0 of five peers times out twice: it is a candidate of term 1, then of term 2.
  A grant for the call of term 1 and a grant for the call of term 2 then arrive.
\<close>

definition twoCandidacies :: "nat event list" where
  "twoCandidacies =
     [ElectionEv 1000 450, ElectionEv 2000 450,
      RequestVoteReplyEv (voteArgs 1 0 0 0) (granted 1) 2010,
      RequestVoteReplyEv (voteArgs 2 0 0 0) (granted 2) 2020]"

text \<open>
  Replica 0 of three peers wins term 1 and starts three commands. \<open>Start\<close> dispatches a
  round each time, so peer 1 is sent entries 1..2 and then entries 1..3. The reply to the
  second call arrives first.
\<close>

definition leaderOfThree :: "nat event list" where
  "leaderOfThree =
     [ElectionEv 1000 450, RequestVoteReplyEv (voteArgs 1 0 0 0) (granted 1) 1010,
      StartEv (Dyn 1) 1020, StartEv (Dyn 2) 1030, StartEv (Dyn 3) 1040,
      AppendEntriesReplyEv 1 (appendArgs 1 0 0 0 [ent 1 1, ent 1 2, ent 1 3] 0) (success 1)]"

text \<open>
  Replica 0 of three peers leads term 1, commits two entries and sends them to the
  service, takes a snapshot at index 2 and sends it to peer 2. It then loses the term to peer 1, and wins
  term 3.
\<close>

definition reelected :: "nat event list" where
  "reelected =
     [ElectionEv 1000 450, RequestVoteReplyEv (voteArgs 1 0 0 0) (granted 1) 1010,
      StartEv (Dyn 1) 1020, StartEv (Dyn 2) 1030,
      AppendEntriesReplyEv 1 (appendArgs 1 0 0 0 [ent 1 1, ent 1 2] 0) (success 1),
      ApplyEv, SendEv, SendEv, TakeSnapshotEv 2 1 [7], HeartbeatEv 1200,
      RequestVoteEv (voteArgs 2 1 2 1) 1300,
      ElectionEv 2000 450, RequestVoteReplyEv (voteArgs 3 0 2 1) (granted 3) 2010]"

text \<open>
  Peer 1 installs the snapshot of the leader of term 1 (peer 2) at index 1 and appends
  entry 2. Peer 0 received entries 1..3 from that leader before it compacted, and is a
  candidate of term 2.
\<close>

definition compactedFollower :: "nat Raft" where
  "compactedFollower =
     run [InstallSnapshotEv (snapArgs 1 2 1 1 [7]) 100,
          AppendEntriesEv (appendArgs 1 2 1 1 [ent 1 2] 1) 200] (Make 3 1 500)"

definition candidateOfTerm2 :: "nat Raft" where
  "candidateOfTerm2 =
     run [AppendEntriesEv (appendArgs 1 2 0 0 [ent 1 1, ent 1 2, ent 1 3] 1) 50,
          ElectionEv 1000 450] (Make 3 0 500)"

text \<open>
  A follower that holds two entries of term 1 which the leader of term 2 never had.
\<close>

definition divergedFollower :: "nat Raft" where
  "divergedFollower =
     run [AppendEntriesEv (appendArgs 1 2 0 0 [ent 1 1, ent 1 2] 0) 50] (Make 3 1 500)"

text \<open>
  \<open>StartKVServer\<close> on an empty persister, and the server after it has read a snapshot
  that holds \<open>clientSeqMap[7] = 4\<close>: the state of a server that restarted after client
  7's request 4 was applied. \<open>decK\<close> and \<open>encK\<close> stand for the labgob decoder and
  encoder on the one blob used here.
\<close>

definition StartKVServer :: "nat \<Rightarrow> int \<Rightarrow> int \<Rightarrow> int \<Rightarrow> KVServer" where
  "StartKVServer n i maxraftstate' timeout =
     \<lparr>KVServer.me = i, rf = Make n i timeout, maxraftstate = maxraftstate',
      store = Map.empty, clientSeqMap = Map.empty, applyResMap = Map.empty,
      applyCond = 0, lastAppliedIndex = 0, lastAppliedTerm = 0\<rparr>"

definition decK :: "byte list \<Rightarrow> ((string \<rightharpoonup> string) \<times> (int \<rightharpoonup> int)) option" where
  "decK d = (if d = [7] then Some ([''k'' \<mapsto> ''vX''], [7 \<mapsto> 4]) else None)"

definition encK :: "(string \<rightharpoonup> string) \<times> (int \<rightharpoonup> int) \<Rightarrow> byte list" where
  "encK p = [7]"

definition restoredServer :: KVServer where
  "restoredServer = readSnapshot decK (StartKVServer 3 0 (- 1) 500) [7]"

definition retried :: "Op ApplyMsg" where
  "retried = \<lparr>CommandValid = True,
      ApplyMsg.Command = Dyn \<lparr>Type = APPEND, Key = ''k'', Value = ''X'', Cid = 7, Seq = 4\<rparr>,
      CommandIndex = 9, CommandTerm = 2\<rparr>"


section \<open>Results\<close>

declare xIndexLoop.simps [simp del] conflictLoop.simps [simp del]
  replicatedCountLoop.simps [simp del] tryCommitLoop.simps [simp del]
  sendLoop.simps [simp del] foundIndexLoop.simps [simp del] applyLoop.simps [simp del]

subsection \<open>Basic facts\<close>

lemma getLogLen_eq: "getLogLen r = int (length (log r)) + lastIncludedIndex r + 1"
  by (simp add: getLogLen_def getLastLogIndex_def a2p_def)

lemma getLastLogIndex_eq: "getLastLogIndex r = int (length (log r)) + lastIncludedIndex r"
  by (simp add: getLastLogIndex_def a2p_def)

lemma revert_fields:
  "log (revertToFollowerIfOutOfTerm r t) = log r"
  "lastIncludedIndex (revertToFollowerIfOutOfTerm r t) = lastIncludedIndex r"
  "lastIncludedTerm (revertToFollowerIfOutOfTerm r t) = lastIncludedTerm r"
  "commitIndex (revertToFollowerIfOutOfTerm r t) = commitIndex r"
  "lastApplied (revertToFollowerIfOutOfTerm r t) = lastApplied r"
  "snapshot (revertToFollowerIfOutOfTerm r t) = snapshot r"
  "applyCh (revertToFollowerIfOutOfTerm r t) = applyCh r"
  "unsent (revertToFollowerIfOutOfTerm r t) = unsent r"
  "nextIndex (revertToFollowerIfOutOfTerm r t) = nextIndex r"
  "matchIndex (revertToFollowerIfOutOfTerm r t) = matchIndex r"
  "peers (revertToFollowerIfOutOfTerm r t) = peers r"
  "Raft.me (revertToFollowerIfOutOfTerm r t) = Raft.me r"
  "currTerm (revertToFollowerIfOutOfTerm r t) = max (currTerm r) t"
  by (simp_all add: revertToFollowerIfOutOfTerm_def persist_def)

lemma revert_same_term: "t \<le> currTerm r \<Longrightarrow> revertToFollowerIfOutOfTerm r t = r"
  by (simp add: revertToFollowerIfOutOfTerm_def)


subsection \<open>RequestVote\<close>

text \<open>
  C2. The claim: the vote is granted iff \<open>args.Term \<ge> currentTerm\<close>, \<open>votedFor\<close> is unset
  or the candidate, and the candidate's log is up to date; in particular a request with
  \<open>args.Term < currentTerm\<close> is never granted. The handler has no test of \<open>args.Term\<close>
  against \<open>currTerm\<close> (\<open>AppendEntries\<close> and \<open>InstallSnapshot\<close> have one): a follower at
  term 5 that has not voted grants its vote to a candidate of term 3 and persists it.
\<close>

theorem RequestVote_grants_below_currTerm:
  "currTerm voterAtTerm5 = 5 \<and> votedFor voterAtTerm5 = noVote
   \<and> RequestVoteArgs.Term (voteArgs 3 1 0 0) < currTerm voterAtTerm5
   \<and> snd (RequestVote voterAtTerm5 (voteArgs 3 1 0 0) 200) = granted 5
   \<and> votedFor (fst (RequestVote voterAtTerm5 (voteArgs 3 1 0 0) 200)) = 1
   \<and> raftstate (fst (RequestVote voterAtTerm5 (voteArgs 3 1 0 0) 200))
       = Some (5, 1, [\<lparr>logEntry.Term = 0, logEntry.Command = nil\<rparr>], - 1, 0)"
  by code_simp

subsection \<open>Election\<close>

text \<open>
  C3. The claim: a candidate becomes leader only on grants from a strict majority that
  were all cast for its current candidacy term; grants for an earlier term are never
  counted. The closure increments \<open>votesReceived\<close> before it compares \<open>term\<close> with
  \<open>currTerm\<close>: of five peers, replica 0 in term 2 holds its own vote, counts the grant
  sent for term 1, and becomes leader of term 2 on a single grant of term 2, two votes
  of the three that a majority needs.
\<close>

theorem stale_grant_counted:
  "snd (periodicElection (Make 5 0 500 :: nat Raft) 1000 450)
     = map (\<lambda>i. RequestVoteCall i (voteArgs 1 0 0 0)) [1, 2, 3, 4]
   \<and> state (run (take 3 twoCandidacies) (Make 5 0 500)) = Candidate
   \<and> currTerm (run (take 3 twoCandidacies) (Make 5 0 500)) = 2
   \<and> votesReceived (run (take 3 twoCandidacies) (Make 5 0 500)) = 2
   \<and> state (run twoCandidacies (Make 5 0 500)) = Leader
   \<and> currTerm (run twoCandidacies (Make 5 0 500)) = 2
   \<and> majorityVotes (run twoCandidacies (Make 5 0 500)) = 3"
  by code_simp

subsection \<open>tryCommit\<close>

text \<open>
  C4. The claim: \<open>tryCommit\<close> examines only indices \<open>N\<close> with
  \<open>commitIndex < N \<le> lastLogIndex\<close>, so \<open>commitIndex\<close> never decreases. The loop runs
  down to \<open>lastIncludedIndex + 1\<close>, not to \<open>commitIndex + 1\<close>. The leader commits index
  3 on the reply to its second call; the reply to its first call (entries 1..2) then sets
  \<open>matchIndex[1]\<close> back to 2, and \<open>tryCommit\<close> sets \<open>commitIndex\<close> to 2.
\<close>

theorem tryCommit_lowers_commitIndex:
  "state (run leaderOfThree (Make 3 0 500)) = Leader
   \<and> commitIndex (run leaderOfThree (Make 3 0 500)) = 3
   \<and> matchIndex (run leaderOfThree (Make 3 0 500)) = [0, 3, 0]
   \<and> commitIndex
        (run (leaderOfThree
              @ [AppendEntriesReplyEv 1 (appendArgs 1 0 0 0 [ent 1 1, ent 1 2] 0) (success 1)])
           (Make 3 0 500)) = 2
   \<and> matchIndex
        (run (leaderOfThree
              @ [AppendEntriesReplyEv 1 (appendArgs 1 0 0 0 [ent 1 1, ent 1 2] 0) (success 1)])
           (Make 3 0 500)) = [0, 2, 0]
   \<and> map_sum id commitIndex
        (tryCommit ((run leaderOfThree (Make 3 0 500))\<lparr>matchIndex := [0, 2, 0]\<rparr>))
       = Inr 2"
  by code_simp

subsection \<open>Replies to the leader\<close>

text \<open>
  C6. The claim: a reply to AppendEntries or to InstallSnapshot is discarded, leaving
  \<open>nextIndex\<close>, \<open>matchIndex\<close> and \<open>commitIndex\<close> as they are, when \<open>currTerm\<close> differs
  from the term of the dispatch or the replica is no longer leader. The AppendEntries
  closure tests \<open>term != rf.currTerm || rf.state != leader\<close>; the InstallSnapshot closure
  tests only \<open>rf.state != leader\<close>. The leader of term 3 receives the reply to the
  snapshot it sent in term 1 and writes \<open>matchIndex[2]\<close>.
\<close>

theorem installSnapshotReply_ignores_term:
  "map_sum id snd (periodicAppendEntries (run (take 9 reelected) (Make 3 0 500)) 1200)
     = Inr [AppendEntriesCall 1 (appendArgs 1 0 2 1 [] 2),
            InstallSnapshotCall 2 (snapArgs 1 0 2 1 [7])]
   \<and> state (run reelected (Make 3 0 500)) = Leader
   \<and> currTerm (run reelected (Make 3 0 500)) = 3
   \<and> matchIndex (run reelected (Make 3 0 500)) = [0, 0, 0]
   \<and> map_sum id matchIndex
        (installSnapshotReply (run reelected (Make 3 0 500)) 2
           (snapArgs 1 0 2 1 [7]) \<lparr>InstallSnapshotReply.Term = 1\<rparr>)
       = Inr [0, 0, 2]"
  by code_simp

subsection \<open>Log Matching\<close>

text \<open>
  C1. The claim: two replicas reached by AppendEntries and InstallSnapshot steps satisfy
  Log Matching. The first loop of \<open>AppendEntries\<close> leaves at \<open>currIndexActual < 0\<close>, that
  is at an entry that lies in the receiver's snapshot, and the second loop then appends
  that entry and all that follow it at the end of the log. Peer 1 holds a snapshot up to
  index 1 and entry 2. The new leader, peer 0, holds entries 1..3 of term 1 and sends
  them with \<open>PrevLogIndex = 0\<close>. Peer 1 answers with success and now holds entry 1 at
  index 3, where the leader holds entry 3 of the same term.
\<close>

theorem AppendEntries_breaks_logMatching:
  "(case requestVoteReply candidateOfTerm2 (voteArgs 2 0 3 1) (granted 2) 1010 of
      Inl e \<Rightarrow> False
    | Inr (leader, calls) \<Rightarrow>
        state leader = Leader
        \<and> calls ! 0 = AppendEntriesCall 1 (appendArgs 2 0 0 0 [ent 1 1, ent 1 2, ent 1 3] 1)
        \<and> logMatching leader compactedFollower
        \<and> (case AppendEntries compactedFollower
                   (appendArgs 2 0 0 0 [ent 1 1, ent 1 2, ent 1 3] 1) 1020 of
              Inl e \<Rightarrow> False
            | Inr (follower, reply) \<Rightarrow>
                Success reply
                \<and> entryAt leader 3 = Some (ent 1 3)
                \<and> entryAt follower 3 = Some (ent 1 1)
                \<and> \<not> logMatching leader follower))"
  by code_simp

theorem AppendEntries_breaks_logMatching_same_term:
  "(case requestVoteReply candidateOfTerm2 (voteArgs 2 0 3 1) (granted 2) 1010 of
      Inl e \<Rightarrow> False
    | Inr (leader, calls) \<Rightarrow>
        (case AppendEntries compactedFollower
                (appendArgs 2 0 0 0 [ent 1 1, ent 1 2, ent 1 3] 1) 1020 of
           Inl e \<Rightarrow> False
         | Inr (follower, reply) \<Rightarrow>
             map_option logEntry.Term (entryAt leader 3) = Some 1
             \<and> map_option logEntry.Term (entryAt follower 3) = Some 1
             \<and> entryAt leader 3 \<noteq> entryAt follower 3))"
  using AppendEntries_breaks_logMatching
  by (auto split: sum.splits prod.splits simp: ent_def)

subsection \<open>Start\<close>







subsection \<open>InstallSnapshot\<close>

lemma InstallSnapshot_stale:
  assumes "InstallSnapshotArgs.Term args \<ge> currTerm r"
    and "LastIncludedIndex args \<le> lastIncludedIndex r"
  shows "fst (InstallSnapshot r args now) =
           (revertToFollowerIfOutOfTerm r (InstallSnapshotArgs.Term args))
              \<lparr>prevTimeElecSuppressed := now\<rparr>"
  using assms by (simp add: InstallSnapshot_def Let_def revert_fields a2p_def)

lemma InstallSnapshot_fresh:
  assumes "InstallSnapshotArgs.Term args \<ge> currTerm r"
    and "LastIncludedIndex args > lastIncludedIndex r"
  shows "fst (InstallSnapshot r args now) =
     (let r2 = (revertToFollowerIfOutOfTerm r (InstallSnapshotArgs.Term args))
                 \<lparr>prevTimeElecSuppressed := now\<rparr>;
          log' = drop (nat (LastIncludedIndex args - lastIncludedIndex r)) (log r)
      in r2\<lparr>log := log', lastIncludedIndex := LastIncludedIndex args,
             lastIncludedTerm := LastIncludedTerm args,
             raftstate := Some (currTerm r2, votedFor r2, log', LastIncludedIndex args,
                                LastIncludedTerm args),
             snapshot := Data args,
             lastApplied := max (lastApplied r) (LastIncludedIndex args),
             commitIndex := max (commitIndex r) (LastIncludedIndex args),
             applyCh := applyCh r @ [\<lparr>CommandValid = False,
                                       ApplyMsg.Command = ByteSlice (Data args),
                                       CommandIndex = 0, CommandTerm = 0\<rparr>]\<rparr>)"
proof -
  have d: "drop (nat (min (LastIncludedIndex args - lastIncludedIndex r) (int (length (log r))))) (log r)
         = drop (nat (LastIncludedIndex args - lastIncludedIndex r)) (log r)"
    by (simp add: min_def)
  show ?thesis
    using assms
    by (simp add: InstallSnapshot_def Let_def revert_fields a2p_def p2a_def getRaftState_def d)
qed

text \<open>
  C7, as amended. For a request with \<open>args.Term \<ge> currTerm\<close> the handler drops the
  snapshot if and only if \<open>args.LastIncludedIndex \<le> lastIncludedIndex\<close> (the test is
  \<open>args.LastIncludedIndex < a2p(0)\<close>): a snapshot at the replica's own
  \<open>lastIncludedIndex\<close> is dropped. On a drop the log, \<open>lastIncludedIndex\<close>,
  \<open>lastIncludedTerm\<close>, \<open>commitIndex\<close>, \<open>lastApplied\<close> and the stored snapshot are
  unchanged and nothing is sent to the service; the persisted Raft state is the one left
  by the term adoption, so it is unchanged when \<open>args.Term = currTerm\<close>. Otherwise the
  snapshot is installed, persisted and forwarded.
\<close>

theorem InstallSnapshot_drops_iff_not_beyond:
  assumes "InstallSnapshotArgs.Term args \<ge> currTerm r"
    and "InstallSnapshot r args now = (r', reply)"
  shows "(LastIncludedIndex args \<le> lastIncludedIndex r \<longrightarrow>
            log r' = log r \<and> lastIncludedIndex r' = lastIncludedIndex r
            \<and> lastIncludedTerm r' = lastIncludedTerm r
            \<and> commitIndex r' = commitIndex r \<and> lastApplied r' = lastApplied r
            \<and> snapshot r' = snapshot r \<and> applyCh r' = applyCh r
            \<and> raftstate r' = raftstate (revertToFollowerIfOutOfTerm r (InstallSnapshotArgs.Term args))
            \<and> (InstallSnapshotArgs.Term args = currTerm r \<longrightarrow> raftstate r' = raftstate r))
         \<and> (LastIncludedIndex args > lastIncludedIndex r \<longrightarrow>
            lastIncludedIndex r' = LastIncludedIndex args
            \<and> lastIncludedTerm r' = LastIncludedTerm args
            \<and> snapshot r' = Data args
            \<and> raftstate r' = Some (getRaftState r')
            \<and> lastApplied r' = max (lastApplied r) (LastIncludedIndex args)
            \<and> commitIndex r' = max (commitIndex r) (LastIncludedIndex args)
            \<and> applyCh r' = applyCh r @ [\<lparr>CommandValid = False,
                                          ApplyMsg.Command = ByteSlice (Data args),
                                          CommandIndex = 0, CommandTerm = 0\<rparr>])"
proof (intro conjI impI)
  assume st: "LastIncludedIndex args \<le> lastIncludedIndex r"
  have r': "r' = (revertToFollowerIfOutOfTerm r (InstallSnapshotArgs.Term args))
                   \<lparr>prevTimeElecSuppressed := now\<rparr>"
    using InstallSnapshot_stale[OF assms(1) st, of now] assms(2) by simp
  show "log r' = log r" "lastIncludedIndex r' = lastIncludedIndex r"
    "lastIncludedTerm r' = lastIncludedTerm r" "commitIndex r' = commitIndex r"
    "lastApplied r' = lastApplied r" "snapshot r' = snapshot r" "applyCh r' = applyCh r"
    "raftstate r' = raftstate (revertToFollowerIfOutOfTerm r (InstallSnapshotArgs.Term args))"
    by (simp_all add: r' revert_fields)
  show "raftstate r' = raftstate r" if "InstallSnapshotArgs.Term args = currTerm r"
    using that by (simp add: r' revert_same_term)
next
  assume fr: "LastIncludedIndex args > lastIncludedIndex r"
  note r' = InstallSnapshot_fresh[OF assms(1) fr, of now, unfolded assms(2) fst_conv Let_def]
  show "lastIncludedIndex r' = LastIncludedIndex args"
    "lastIncludedTerm r' = LastIncludedTerm args"
    "snapshot r' = Data args"
    "lastApplied r' = max (lastApplied r) (LastIncludedIndex args)"
    "commitIndex r' = max (commitIndex r) (LastIncludedIndex args)"
    "applyCh r' = applyCh r @ [\<lparr>CommandValid = False,
                                          ApplyMsg.Command = ByteSlice (Data args),
                                          CommandIndex = 0, CommandTerm = 0\<rparr>]"
    by (simp_all add: r')
  show "raftstate r' = Some (getRaftState r')"
    by (simp add: r' getRaftState_def)
qed

text \<open>
  The claim as stated fails: at \<open>args.LastIncludedIndex = lastIncludedIndex\<close> the
  snapshot is dropped, and a drop that adopts a higher term rewrites the persisted state.
\<close>

theorem InstallSnapshot_drops_equal_index:
  "InstallSnapshotArgs.Term (snapArgs 1 2 1 1 [9]) \<ge> currTerm compactedFollower
   \<and> LastIncludedIndex (snapArgs 1 2 1 1 [9]) = lastIncludedIndex compactedFollower
   \<and> snapshot (fst (InstallSnapshot compactedFollower (snapArgs 1 2 1 1 [9]) 300))
       = snapshot compactedFollower
   \<and> snapshot compactedFollower = [7]
   \<and> applyCh (fst (InstallSnapshot compactedFollower (snapArgs 1 2 1 1 [9]) 300))
       = applyCh compactedFollower
   \<and> raftstate (fst (InstallSnapshot voterAtTerm5 (snapArgs 6 2 (- 1) 0 [9]) 300))
       \<noteq> raftstate voterAtTerm5"
  by code_simp

theorem InstallSnapshot_drops_iff_not_beyond_witness:
  "applyCh (fst (InstallSnapshot compactedFollower (snapArgs 1 2 1 1 [9]) 300))
     = applyCh compactedFollower
   \<and> raftstate (fst (InstallSnapshot compactedFollower (snapArgs 1 2 1 1 [9]) 300))
     = raftstate compactedFollower
   \<and> lastIncludedIndex (fst (InstallSnapshot compactedFollower (snapArgs 1 2 2 1 [9]) 300)) = 2
   \<and> snapshot (fst (InstallSnapshot compactedFollower (snapArgs 1 2 2 1 [9]) 300)) = [9]"
proof -
  have t: "InstallSnapshotArgs.Term (snapArgs 1 2 1 1 [9]) \<ge> currTerm compactedFollower"
    "InstallSnapshotArgs.Term (snapArgs 1 2 2 1 [9]) \<ge> currTerm compactedFollower"
    by code_simp+
  have e: "InstallSnapshotArgs.Term (snapArgs 1 2 1 1 [9]) = currTerm compactedFollower"
    by code_simp
  have i: "LastIncludedIndex (snapArgs 1 2 1 1 [9]) \<le> lastIncludedIndex compactedFollower"
    "LastIncludedIndex (snapArgs 1 2 2 1 [9]) > lastIncludedIndex compactedFollower"
    by code_simp+
  have v: "LastIncludedIndex (snapArgs 1 2 2 1 [9]) = 2" "Data (snapArgs 1 2 2 1 [9]) = [9]"
    by (simp_all add: snapArgs_def)
  have p1: "InstallSnapshot compactedFollower (snapArgs 1 2 1 1 [9]) 300 =
      (fst (InstallSnapshot compactedFollower (snapArgs 1 2 1 1 [9]) 300),
       snd (InstallSnapshot compactedFollower (snapArgs 1 2 1 1 [9]) 300))" by simp
  have p2: "InstallSnapshot compactedFollower (snapArgs 1 2 2 1 [9]) 300 =
      (fst (InstallSnapshot compactedFollower (snapArgs 1 2 2 1 [9]) 300),
       snd (InstallSnapshot compactedFollower (snapArgs 1 2 2 1 [9]) 300))" by simp
  from InstallSnapshot_drops_iff_not_beyond[OF t(1) p1] i(1) e
  have a: "applyCh (fst (InstallSnapshot compactedFollower (snapArgs 1 2 1 1 [9]) 300))
             = applyCh compactedFollower
           \<and> raftstate (fst (InstallSnapshot compactedFollower (snapArgs 1 2 1 1 [9]) 300))
             = raftstate compactedFollower"
    by blast
  from InstallSnapshot_drops_iff_not_beyond[OF t(2) p2] i(2)
  have b: "lastIncludedIndex (fst (InstallSnapshot compactedFollower (snapArgs 1 2 2 1 [9]) 300))
             = LastIncludedIndex (snapArgs 1 2 2 1 [9])
           \<and> snapshot (fst (InstallSnapshot compactedFollower (snapArgs 1 2 2 1 [9]) 300))
             = Data (snapArgs 1 2 2 1 [9])"
    by blast
  from a b show ?thesis unfolding v by blast
qed

lemma entryAt_drop:
  assumes "0 \<le> k"
  shows "entryAt (r\<lparr>log := drop (nat k) (log r), lastIncludedIndex := lastIncludedIndex r + k\<rparr>) i
     = (if i > lastIncludedIndex r + k then entryAt r i else None)"
proof (cases "i > lastIncludedIndex r + k")
  case False
  then show ?thesis by (simp add: entryAt_def inRange_def p2a_def)
next
  case True
  define a where "a = i - lastIncludedIndex r - 1"
  let ?r' = "r\<lparr>log := drop (nat k) (log r), lastIncludedIndex := lastIncludedIndex r + k\<rparr>"
  have a: "a \<ge> k" using True by (simp add: a_def)
  have p': "p2a ?r' i = a - k" by (simp add: p2a_def a_def)
  have p: "p2a r i = a" by (simp add: p2a_def a_def)
  have ir: "inRange (drop (nat k) (log r)) (a - k) = inRange (log r) a"
    using a assms unfolding inRange_def length_drop by linarith
  have nth: "drop (nat k) (log r) ! nat (a - k) = log r ! nat a" if "inRange (log r) a"
  proof -
    have le: "nat k \<le> length (log r)" using that a assms by (simp add: inRange_def)
    have "nat k + nat (a - k) = nat a" using a assms by linarith
    then show ?thesis using nth_drop[OF le, of "nat (a - k)"] by simp
  qed
  have "entryAt ?r' i = (if inRange (log r) a then Some (log r ! nat a) else None)"
    unfolding entryAt_def p' using ir nth by simp
  also have "\<dots> = entryAt r i" unfolding entryAt_def p by simp
  finally show ?thesis using True by simp
qed

text \<open>
  C8, as amended. When a follower accepts an InstallSnapshot it discards the local
  entries up to and including \<open>args.LastIncludedIndex\<close> and keeps every local entry
  after that index, whatever the term of its own entry at \<open>args.LastIncludedIndex\<close>;
  the log becomes empty exactly when it held no entry after that index.
\<close>

theorem InstallSnapshot_keeps_suffix:
  assumes "InstallSnapshotArgs.Term args \<ge> currTerm r"
    and "LastIncludedIndex args > lastIncludedIndex r"
    and "InstallSnapshot r args now = (r', reply)"
  shows "log r' = drop (nat (LastIncludedIndex args - lastIncludedIndex r)) (log r)
         \<and> (\<forall>i. entryAt r' i = (if i > LastIncludedIndex args then entryAt r i else None))
         \<and> (log r' = [] \<longleftrightarrow> getLastLogIndex r \<le> LastIncludedIndex args)"
proof -
  let ?k = "LastIncludedIndex args - lastIncludedIndex r"
  note r' = InstallSnapshot_fresh[OF assms(1) assms(2), of now, unfolded assms(3) fst_conv Let_def]
  have lg: "log r' = drop (nat ?k) (log r)" and lii: "lastIncludedIndex r' = LastIncludedIndex args"
    by (simp_all add: r')
  have "entryAt r' i = entryAt (r\<lparr>log := drop (nat ?k) (log r), lastIncludedIndex := lastIncludedIndex r + ?k\<rparr>) i" for i
    using lg lii by (simp add: entryAt_def p2a_def)
  then have "entryAt r' i = (if i > LastIncludedIndex args then entryAt r i else None)" for i
    using entryAt_drop[of ?k r i] assms(2) by simp
  moreover have "log r' = [] \<longleftrightarrow> getLastLogIndex r \<le> LastIncludedIndex args"
    using lg assms(2) by (auto simp: getLastLogIndex_eq)
  ultimately show ?thesis using lg by blast
qed

text \<open>
  The claim as stated fails: the follower's entry at index 1 has term 1, the snapshot's
  last included term is 2, and the entry after index 1 is kept.
\<close>

theorem InstallSnapshot_keeps_entries_after_mismatch:
  "currTerm divergedFollower \<le> InstallSnapshotArgs.Term (snapArgs 2 0 1 2 [9])
   \<and> lastIncludedIndex divergedFollower < LastIncludedIndex (snapArgs 2 0 1 2 [9])
   \<and> entryAt divergedFollower 1 = Some (ent 1 1)
   \<and> LastIncludedTerm (snapArgs 2 0 1 2 [9]) = 2
   \<and> log (fst (InstallSnapshot divergedFollower (snapArgs 2 0 1 2 [9]) 100)) = [ent 1 2]"
  by code_simp

theorem InstallSnapshot_keeps_suffix_witness:
  "log (fst (InstallSnapshot divergedFollower (snapArgs 2 0 1 2 [9]) 100)) = [ent 1 2]
   \<and> entryAt (fst (InstallSnapshot divergedFollower (snapArgs 2 0 1 2 [9]) 100)) 2 = Some (ent 1 2)
   \<and> entryAt (fst (InstallSnapshot divergedFollower (snapArgs 2 0 1 2 [9]) 100)) 1 = None"
proof -
  have t: "InstallSnapshotArgs.Term (snapArgs 2 0 1 2 [9]) \<ge> currTerm divergedFollower"
    by code_simp
  have i: "LastIncludedIndex (snapArgs 2 0 1 2 [9]) > lastIncludedIndex divergedFollower"
    by code_simp
  have v: "LastIncludedIndex (snapArgs 2 0 1 2 [9]) = 1" "lastIncludedIndex divergedFollower = - 1"
    "log divergedFollower = [\<lparr>logEntry.Term = 0, logEntry.Command = nil\<rparr>, ent 1 1, ent 1 2]"
    "entryAt divergedFollower 2 = Some (ent 1 2)"
    by code_simp+
  have p: "InstallSnapshot divergedFollower (snapArgs 2 0 1 2 [9]) 100 =
      (fst (InstallSnapshot divergedFollower (snapArgs 2 0 1 2 [9]) 100),
       snd (InstallSnapshot divergedFollower (snapArgs 2 0 1 2 [9]) 100))" by simp
  note k = InstallSnapshot_keeps_suffix[OF t i p]
  from k have a: "log (fst (InstallSnapshot divergedFollower (snapArgs 2 0 1 2 [9]) 100))
      = drop (nat (LastIncludedIndex (snapArgs 2 0 1 2 [9]) - lastIncludedIndex divergedFollower))
          (log divergedFollower)"
    by blast
  from k have b: "entryAt (fst (InstallSnapshot divergedFollower (snapArgs 2 0 1 2 [9]) 100)) j
      = (if j > LastIncludedIndex (snapArgs 2 0 1 2 [9]) then entryAt divergedFollower j else None)"
    for j by blast
  show ?thesis using a b[of 2] b[of 1] by (simp add: v)
qed

subsection \<open>The key-value server's apply loop\<close>

lemma snapshotCheck_frame:
  "snapshotCheck enc exceeds kv = Inr kv' \<Longrightarrow> kv' = kv\<lparr>rf := rf kv'\<rparr>"
  by (auto simp: snapshotCheck_def split: if_splits sum.splits)

text \<open>
  What the loop does with a command whose \<open>Seq\<close> is at most \<open>clientSeqMap[Cid]\<close>: the
  whole branch that executes, records the wait-result and broadcasts is skipped, and the
  pass goes on to \<open>snapshotCheck\<close>.
\<close>

lemma duplicate_records_nothing:
  assumes "CommandValid msg" and "ApplyMsg.Command msg = Dyn op"
    and "Seq op \<le> seqOf (clientSeqMap kv) (Cid op)"
  shows "kvApplyCommitted enc dec exceeds kv msg = snapshotCheck enc exceeds kv
     \<and> (\<forall>kv'. kvApplyCommitted enc dec exceeds kv msg = Inr kv' \<longrightarrow>
           store kv' = store kv \<and> clientSeqMap kv' = clientSeqMap kv
           \<and> applyResMap kv' = applyResMap kv \<and> applyCond kv' = applyCond kv
           \<and> lastAppliedIndex kv' = lastAppliedIndex kv
           \<and> lastAppliedTerm kv' = lastAppliedTerm kv
           \<and> (\<forall>cid seq. applied kv' cid seq = applied kv cid seq))
     \<and> (\<not> (maxraftstate kv > - 1 \<and> exceeds) \<longrightarrow>
           kvApplyCommitted enc dec exceeds kv msg = Inr kv)"
proof -
  have eq: "kvApplyCommitted enc dec exceeds kv msg = snapshotCheck enc exceeds kv"
    using assms by (simp add: kvApplyCommitted_def)
  have "store kv' = store kv \<and> clientSeqMap kv' = clientSeqMap kv
           \<and> applyResMap kv' = applyResMap kv \<and> applyCond kv' = applyCond kv
           \<and> lastAppliedIndex kv' = lastAppliedIndex kv
           \<and> lastAppliedTerm kv' = lastAppliedTerm kv
           \<and> (\<forall>cid seq. applied kv' cid seq = applied kv cid seq)"
    if "snapshotCheck enc exceeds kv = Inr kv'" for kv'
  proof -
    from snapshotCheck_frame[OF that] obtain x where "kv' = kv\<lparr>rf := x\<rparr>" by blast
    then show ?thesis by (simp add: applied_def)
  qed
  moreover have "\<not> (maxraftstate kv > - 1 \<and> exceeds) \<longrightarrow> snapshotCheck enc exceeds kv = Inr kv"
    by (simp add: snapshotCheck_def)
  ultimately show ?thesis using eq by simp
qed

text \<open>
  C5. The claim: for a committed command with \<open>Seq \<le> clientSeqMap[Cid]\<close> the loop does
  not execute the command, and still records the wait-result for \<open>(Cid, Seq)\<close> and
  signals the waiters, so that a handler waiting on \<open>(Cid, Seq)\<close> completes. The store
  is indeed unchanged, but the assignment \<open>applyResMap[Cid][Seq] = true\<close> and the
  \<open>Broadcast\<close> stand under \<open>op.Seq > clientSeqMap[op.Cid]\<close>. A server that restarted
  holds \<open>clientSeqMap[7] = 4\<close> from its snapshot and an empty \<open>applyResMap\<close>. The retry
  of request \<open>(7, 4)\<close> passes the handlers' test (\<open>4 < 4\<close> is false), so it is proposed
  and its handler waits; the command is applied as a duplicate, no result is recorded and
  there is no broadcast, and the same holds for every further retry.
\<close>

theorem duplicate_leaves_waiter_blocked:
  "seqOf (clientSeqMap restoredServer) 7 = 4
   \<and> \<not> staleRequest restoredServer 7 4
   \<and> \<not> applied restoredServer 7 4
   \<and> CommandValid retried
   \<and> ApplyMsg.Command retried
       = Dyn \<lparr>Type = APPEND, Key = ''k'', Value = ''X'', Cid = 7, Seq = 4\<rparr>
   \<and> map_sum id
        (\<lambda>kv'. (applied kv' 7 4, applyCond kv' - applyCond restoredServer, store kv' ''k'',
                 staleRequest kv' 7 4))
        (kvApplyCommitted encK decK False restoredServer retried)
       = Inr (False, 0, Some ''vX'', False)"
  by (simp add: restoredServer_def readSnapshot_def decK_def StartKVServer_def retried_def
       kvApplyCommitted_def seqOf_def snapshotCheck_def applied_def staleRequest_def)

subsection \<open>The apply stream\<close>


















text \<open>The applier's batch, and the invariant of the messages produced.\<close>

lemma committedMsg_step [simp]:
  "committedMsg (r\<lparr>lastApplied := k\<rparr>) = committedMsg r"
  by (rule ext) (simp add: committedMsg_def p2a_def)






















end
